theory Spec2Isabelle
  imports Complex_Main
begin

section \<open>Evaluation metrics of libreco: a shallow embedding of evaluate.py\<close>

text \<open>
  The module computes rating-error metrics (RMSE, binary cross-entropy) and ranking
  metrics (AP@k, MAP@k, HitRatio@k, NDCG@k) from a model and a dataset that it receives
  as arguments. The embedding keeps the source's names and its loops with their
  accumulators.

  Numbers. A finite float64 is modelled by the real number it denotes. The arithmetic
  that the metric functions themselves perform on finite values is taken exact; rounding
  and overflow there are not modelled. The addition of a constant to the scores, which
  happens before the scores reach the metrics, is the float64 addition \<open>float64_add\<close>
  with its rounding. The special values that
  numpy returns instead of raising (the mean of an empty array, the logarithm of zero or
  of a negative number, a numpy division by zero) are values of \<open>npfloat\<close>. Python's own
  division raises \<open>ZeroDivisionError\<close>, which is a \<open>py_error\<close>.

  The TensorFlow functions \<open>precision_tf\<close> and \<open>NDCG_at_k_tf\<close> build a computation
  graph and are not part of this development; of \<open>rmse_tf\<close>, which runs one, the split
  dispatch is modelled and the engine is a parameter.
\<close>

subsection \<open>Python errors and numpy values\<close>

datatype py_error = UnboundLocalError | ZeroDivisionError | IndexError | KeyError | ValueError

datatype npfloat = Finite real | PosInf | NegInf | NaN

text \<open>Addition of float64 values with the IEEE rules for the specials.\<close>

fun np_add :: "npfloat \<Rightarrow> npfloat \<Rightarrow> npfloat" where
  "np_add (Finite x) (Finite y) = Finite (x + y)"
| "np_add NaN _ = NaN"
| "np_add _ NaN = NaN"
| "np_add PosInf NegInf = NaN"
| "np_add NegInf PosInf = NaN"
| "np_add PosInf _ = PosInf"
| "np_add _ PosInf = PosInf"
| "np_add NegInf _ = NegInf"
| "np_add _ NegInf = NegInf"

text \<open>
  A float64 divided by a Python integer: numpy does not raise on a zero divisor, it
  returns an infinity or NaN (with a warning).
\<close>

fun np_div_int :: "npfloat \<Rightarrow> int \<Rightarrow> npfloat" where
  "np_div_int (Finite x) n =
     (if n = 0 then (if x = 0 then NaN else if 0 < x then PosInf else NegInf)
      else Finite (x / real_of_int n))"
| "np_div_int PosInf n = (if n < 0 then NegInf else PosInf)"
| "np_div_int NegInf n = (if n < 0 then PosInf else NegInf)"
| "np_div_int NaN n = NaN"

text \<open>\<open>np.mean\<close>: the sum of the entries divided by their number; NaN on no entries.\<close>

definition np_mean :: "npfloat list \<Rightarrow> npfloat" where
  "np_mean xs = np_div_int (foldl np_add (Finite 0) xs) (int (length xs))"

fun np_sqrt :: "npfloat \<Rightarrow> npfloat" where
  "np_sqrt (Finite x) = (if 0 \<le> x then Finite (sqrt x) else NaN)"
| "np_sqrt PosInf = PosInf"
| "np_sqrt NegInf = NaN"
| "np_sqrt NaN = NaN"

text \<open>\<open>np.log\<close> of a finite value: minus infinity at zero, NaN below zero.\<close>

definition np_log :: "real \<Rightarrow> npfloat" where
  "np_log x = (if 0 < x then Finite (ln x) else if x = 0 then NegInf else NaN)"

fun np_neg :: "npfloat \<Rightarrow> npfloat" where
  "np_neg (Finite x) = Finite (- x)"
| "np_neg PosInf = NegInf"
| "np_neg NegInf = PosInf"
| "np_neg NaN = NaN"

text \<open>Python's \<open>a / b\<close> on Python numbers: a zero divisor raises.\<close>

definition py_div :: "real \<Rightarrow> real \<Rightarrow> py_error + real" where
  "py_div a b = (if b = 0 then Inl ZeroDivisionError else Inr (a / b))"

text \<open>
  \<open>pred - ratings\<close>, a Python list minus a one-dimensional numpy array, with numpy's
  broadcasting: equal lengths subtract entry by entry, a length-one operand is stretched,
  and any other pair of lengths raises \<open>ValueError\<close>.
\<close>

definition np_sub :: "real list \<Rightarrow> real list \<Rightarrow> py_error + real list" where
  "np_sub xs ys =
     (if length xs = length ys then Inr (map (\<lambda>(x, y). x - y) (zip xs ys))
      else if length xs = 1 then Inr (map (\<lambda>y. hd xs - y) ys)
      else if length ys = 1 then Inr (map (\<lambda>x. x - hd ys) xs)
      else Inl ValueError)"

subsection \<open>The collaborators: model and dataset\<close>

text \<open>
  User and item ids are array indices. The model is given by its three prediction
  operations; \<open>predict_method\<close> is the three-argument \<open>predict(u, i, method)\<close> that returns
  a pair whose first component is the probability. \<open>sess_run\<close> is what
  \<open>model.sess.run(model.metrics, feed_dict=...)\<close> returns for the three fed sequences; the
  engine behind it is not modelled. The dataset holds the parallel
  sequences of each split (numpy arrays for labels and ratings), the relevant-set index
  \<open>train_user\<close> (a dict, kept as an association list in insertion order) and the integer
  \<open>n_users\<close>, which the source reads as a field of its own.
\<close>

type_synonym user = nat
type_synonym item = nat

record model =
  predict :: "user \<Rightarrow> item \<Rightarrow> real"
  predict_method :: "user \<Rightarrow> item \<Rightarrow> string \<Rightarrow> real \<times> real"
  predict_user :: "user \<Rightarrow> real list"
  sess_run :: "user list \<Rightarrow> item list \<Rightarrow> real list \<Rightarrow> npfloat"

record dataset =
  train_user_indices :: "user list"
  train_item_indices :: "item list"
  train_labels :: "real list"
  train_ratings :: "real list"
  test_user_indices :: "user list"
  test_item_indices :: "item list"
  test_labels :: "real list"
  test_ratings :: "real list"
  train_user :: "(user \<times> item set) list"
  n_users :: int

subsection \<open>RMSE\<close>

text \<open>
  The \<open>if mode == "train" ... elif mode == "test"\<close> dispatch has no \<open>else\<close>: for any other
  mode the three local variables stay unbound, which is \<open>None\<close> here.
\<close>

definition knn_split :: "dataset \<Rightarrow> string \<Rightarrow> (user list \<times> item list \<times> real list) option" where
  "knn_split d mode =
     (if mode = ''train'' then Some (train_user_indices d, train_item_indices d, train_labels d)
      else if mode = ''test'' then Some (test_user_indices d, test_item_indices d, test_labels d)
      else None)"

definition svd_split :: "dataset \<Rightarrow> string \<Rightarrow> (user list \<times> item list \<times> real list) option" where
  "svd_split d mode =
     (if mode = ''train'' then Some (train_user_indices d, train_item_indices d, train_ratings d)
      else if mode = ''test'' then Some (test_user_indices d, test_item_indices d, test_ratings d)
      else None)"

text \<open>
  The prediction loop \<open>for u, i in zip(user_indices, item_indices)\<close>. Besides the list
  \<open>pred\<close> it carries the log of the calls made to \<open>model.predict\<close>, one entry per call, in
  the order of the calls.
\<close>

fun predict_loop ::
  "model \<Rightarrow> (user \<times> item) list \<Rightarrow> real list \<Rightarrow> (user \<times> item) list
     \<Rightarrow> real list \<times> (user \<times> item) list" where
  "predict_loop m [] pred calls = (pred, calls)"
| "predict_loop m ((u, i) # rest) pred calls =
     (let p = predict m u i in predict_loop m rest (pred @ [p]) (calls @ [(u, i)]))"

text \<open>Lines 16 to 21 (and 34 to 39): the loop, then \<open>np.sqrt(np.mean(np.power(pred - ratings, 2)))\<close>.\<close>

definition rmse_body ::
  "model \<Rightarrow> user list \<Rightarrow> item list \<Rightarrow> real list
     \<Rightarrow> (py_error + npfloat) \<times> (user \<times> item) list" where
  "rmse_body m user_indices item_indices ratings =
     (case predict_loop m (zip user_indices item_indices) [] [] of
        (pred, calls) \<Rightarrow>
          (case np_sub pred ratings of
             Inl e \<Rightarrow> (Inl e, calls)
           | Inr diff \<Rightarrow> (Inr (np_sqrt (np_mean (map (\<lambda>x. Finite (x ^ 2)) diff))), calls)))"

text \<open>
  Reading the unbound \<open>user_indices\<close> at the head of the loop raises \<open>UnboundLocalError\<close>
  before any prediction is made.
\<close>

definition rmse_knn :: "model \<Rightarrow> dataset \<Rightarrow> string \<Rightarrow> (py_error + npfloat) \<times> (user \<times> item) list" where
  "rmse_knn m d mode =
     (case knn_split d mode of
        None \<Rightarrow> (Inl UnboundLocalError, [])
      | Some (user_indices, item_indices, ratings) \<Rightarrow> rmse_body m user_indices item_indices ratings)"

definition rmse_svd ::
  "model \<Rightarrow> dataset \<Rightarrow> bool \<Rightarrow> string \<Rightarrow> (py_error + npfloat) \<times> (user \<times> item) list" where
  "rmse_svd m d baseline mode =
     (case svd_split d mode of
        None \<Rightarrow> (Inl UnboundLocalError, [])
      | Some (user_indices, item_indices, ratings) \<Rightarrow> rmse_body m user_indices item_indices ratings)"

text \<open>
  \<open>rmse_tf\<close> has the same dispatch, on the ratings; the unbound \<open>user_indices\<close> is read
  when the \<open>feed_dict\<close> argument is built, before the engine runs.
\<close>

definition rmse_tf :: "model \<Rightarrow> dataset \<Rightarrow> string \<Rightarrow> py_error + npfloat" where
  "rmse_tf m d mode =
     (case svd_split d mode of
        None \<Rightarrow> Inl UnboundLocalError
      | Some (user_indices, item_indices, ratings) \<Rightarrow>
          Inr (sess_run m user_indices item_indices ratings))"

subsection \<open>The Top-k list\<close>

text \<open>
  \<open>np.argsort(ranklist)[::-1][:k]\<close>: the positions of the scores in ascending order of
  score, reversed, cut to the first k. numpy's default sort is not stable: it leaves the
  order of equal scores to its implementation, and the insertion sort used here, which
  keeps equal scores in position order, stands for one such implementation. Where the
  scores are distinct every sort gives the same list. The
  cutoff k is a count (a natural number): a negative k, for which Python's slice drops
  entries from the end, is outside this development.
\<close>

definition argsort :: "real list \<Rightarrow> nat list" where
  "argsort ranklist = sort_key (\<lambda>i. ranklist ! i) [0..<length ranklist]"

definition top_k_list :: "real list \<Rightarrow> nat \<Rightarrow> item list" where
  "top_k_list ranklist k = take k (rev (argsort ranklist))"

subsection \<open>Average precision and its mean\<close>

text \<open>The inner loop \<open>for pred in top_k[:i]\<close>, counting the relevant entries.\<close>

fun precision_loop :: "item list \<Rightarrow> item set \<Rightarrow> nat \<Rightarrow> nat" where
  "precision_loop [] rel precision_i = precision_i"
| "precision_loop (pred # rest) rel precision_i =
     precision_loop rest rel (if pred \<in> rel then precision_i + 1 else precision_i)"

text \<open>
  The walk \<open>for i in range(1, k + 1)\<close>; i is at least 1, so that \<open>i - 1\<close> is a
  position counted from the front. \<open>top_k[i-1]\<close> is evaluated first and raises
  \<open>IndexError\<close> past the end of \<open>top_k\<close>; then \<open>dataset.train_user[u]\<close> raises \<open>KeyError\<close>
  for a user that is no key (\<open>rel = None\<close>).
\<close>

fun AP_loop ::
  "item list \<Rightarrow> item set option \<Rightarrow> nat list \<Rightarrow> real \<Rightarrow> nat \<Rightarrow> py_error + (real \<times> nat)" where
  "AP_loop top_k rel [] precision_k count_relevant_k = Inr (precision_k, count_relevant_k)"
| "AP_loop top_k rel (i # rest) precision_k count_relevant_k =
     (if length top_k \<le> i - 1 then Inl IndexError
      else case rel of
        None \<Rightarrow> Inl KeyError
      | Some r \<Rightarrow>
          if top_k ! (i - 1) \<in> r
          then AP_loop top_k rel rest
                 (precision_k + real (precision_loop (take i top_k) r 0) / real i)
                 (count_relevant_k + 1)
          else AP_loop top_k rel rest precision_k count_relevant_k)"

text \<open>The \<open>try ... except ZeroDivisionError\<close> turns the division by a zero count into 0.0.\<close>

definition AP_at_k :: "model \<Rightarrow> dataset \<Rightarrow> user \<Rightarrow> nat \<Rightarrow> py_error + real" where
  "AP_at_k m d u k =
     (let ranklist = predict_user m u;
          top_k = top_k_list ranklist k
      in case AP_loop top_k (map_of (train_user d) u) [1..<k + 1] 0 0 of
           Inl e \<Rightarrow> Inl e
         | Inr (precision_k, count_relevant_k) \<Rightarrow>
             (case py_div precision_k (real count_relevant_k) of
                Inl ZeroDivisionError \<Rightarrow> Inr 0
              | Inl e \<Rightarrow> Inl e
              | Inr average_precision_at_k \<Rightarrow> Inr average_precision_at_k))"

fun MAP_loop :: "model \<Rightarrow> dataset \<Rightarrow> nat \<Rightarrow> user list \<Rightarrow> real \<Rightarrow> py_error + real" where
  "MAP_loop m d k [] average_precision_at_k = Inr average_precision_at_k"
| "MAP_loop m d k (u # rest) average_precision_at_k =
     (case AP_at_k m d u k of
        Inl e \<Rightarrow> Inl e
      | Inr ap \<Rightarrow> MAP_loop m d k rest (average_precision_at_k + ap))"

definition MAP_at_k :: "model \<Rightarrow> dataset \<Rightarrow> nat \<Rightarrow> py_error + real" where
  "MAP_at_k m d k =
     (case MAP_loop m d k (map fst (train_user d)) 0 of
        Inl e \<Rightarrow> Inl e
      | Inr average_precision_at_k \<Rightarrow> py_div average_precision_at_k (real_of_int (n_users d)))"

subsection \<open>Hit ratio\<close>

fun hit_loop :: "item list \<Rightarrow> item set option \<Rightarrow> nat \<Rightarrow> py_error + nat" where
  "hit_loop [] rel user_HitRatio = Inr user_HitRatio"
| "hit_loop (i # rest) rel user_HitRatio =
     (case rel of
        None \<Rightarrow> Inl KeyError
      | Some r \<Rightarrow> hit_loop rest rel (if i \<in> r then user_HitRatio + 1 else user_HitRatio))"

text \<open>The body of \<open>for u in dataset.train_user\<close>: the value appended to \<open>HitRatio\<close>.\<close>

definition user_hit_ratio :: "model \<Rightarrow> dataset \<Rightarrow> nat \<Rightarrow> user \<Rightarrow> py_error + real" where
  "user_hit_ratio m d k u =
     (let ranklist = predict_user m u;
          top_k = top_k_list ranklist k
      in case hit_loop top_k (map_of (train_user d) u) 0 of
           Inl e \<Rightarrow> Inl e
         | Inr user_HitRatio \<Rightarrow> py_div (real user_HitRatio) (real k))"

fun HitRatio_loop :: "model \<Rightarrow> dataset \<Rightarrow> nat \<Rightarrow> user list \<Rightarrow> real list \<Rightarrow> py_error + real list" where
  "HitRatio_loop m d k [] HitRatio = Inr HitRatio"
| "HitRatio_loop m d k (u # rest) HitRatio =
     (case user_hit_ratio m d k u of
        Inl e \<Rightarrow> Inl e
      | Inr r \<Rightarrow> HitRatio_loop m d k rest (HitRatio @ [r]))"

definition HitRatio_at_k :: "model \<Rightarrow> dataset \<Rightarrow> nat \<Rightarrow> py_error + npfloat" where
  "HitRatio_at_k m d k =
     (case HitRatio_loop m d k (map fst (train_user d)) [] of
        Inl e \<Rightarrow> Inl e
      | Inr HitRatio \<Rightarrow> Inr (np_mean (map Finite HitRatio)))"

subsection \<open>Normalised discounted cumulative gain\<close>

text \<open>\<open>for n, item in enumerate(top_k)\<close>.\<close>

fun DCG_loop :: "(nat \<times> item) list \<Rightarrow> item set option \<Rightarrow> real \<Rightarrow> py_error + real" where
  "DCG_loop [] rel DCG = Inr DCG"
| "DCG_loop ((n, item) # rest) rel DCG =
     (case rel of
        None \<Rightarrow> Inl KeyError
      | Some r \<Rightarrow>
          DCG_loop rest rel (if item \<in> r then DCG + 1 / log 2 (real (n + 2)) else DCG))"

text \<open>\<open>for n in range(k)\<close>.\<close>

fun IDCG_loop :: "nat list \<Rightarrow> real \<Rightarrow> real" where
  "IDCG_loop [] IDCG = IDCG"
| "IDCG_loop (n # rest) IDCG = IDCG_loop rest (IDCG + 1 / log 2 (real (n + 2)))"

text \<open>
  The body of the user loop: the value \<open>DCG / IDCG\<close> added to \<open>NDCG\<close>. \<open>IDCG\<close> is zero only
  for k = 0, where \<open>top_k\<close> is empty and both operands are still the Python integer 0, so
  that the division raises.
\<close>

definition user_ndcg :: "model \<Rightarrow> dataset \<Rightarrow> nat \<Rightarrow> user \<Rightarrow> py_error + real" where
  "user_ndcg m d k u =
     (let ranklist = predict_user m u;
          top_k = top_k_list ranklist k
      in case DCG_loop (zip [0..<length top_k] top_k) (map_of (train_user d) u) 0 of
           Inl e \<Rightarrow> Inl e
         | Inr DCG \<Rightarrow> py_div DCG (IDCG_loop [0..<k] 0))"

fun NDCG_loop :: "model \<Rightarrow> dataset \<Rightarrow> nat \<Rightarrow> user list \<Rightarrow> real \<Rightarrow> py_error + real" where
  "NDCG_loop m d k [] NDCG = Inr NDCG"
| "NDCG_loop m d k (u # rest) NDCG =
     (case user_ndcg m d k u of
        Inl e \<Rightarrow> Inl e
      | Inr q \<Rightarrow> NDCG_loop m d k rest (NDCG + q))"

text \<open>
  \<open>NDCG / dataset.n_users\<close>: with no user \<open>NDCG\<close> is still the Python integer 0 and a zero
  \<open>n_users\<close> raises; after at least one user it is a float64 and numpy divides.
\<close>

definition NDCG_at_k :: "model \<Rightarrow> dataset \<Rightarrow> nat \<Rightarrow> py_error + npfloat" where
  "NDCG_at_k m d k =
     (case NDCG_loop m d k (map fst (train_user d)) 0 of
        Inl e \<Rightarrow> Inl e
      | Inr NDCG \<Rightarrow>
          if train_user d = []
          then (case py_div NDCG (real_of_int (n_users d)) of
                  Inl e \<Rightarrow> Inl e
                | Inr x \<Rightarrow> Inr (Finite x))
          else Inr (np_div_int (Finite NDCG) (n_users d)))"

subsection \<open>Binary cross-entropy\<close>

text \<open>
  \<open>for u, i, l in zip(user, item, label)\<close>: the probability is appended for every sample,
  a cross-entropy term only under \<open>l == 1.0\<close> or \<open>l == 0.0\<close>.
\<close>

fun bce_loop ::
  "model \<Rightarrow> string \<Rightarrow> (user \<times> item \<times> real) list \<Rightarrow> npfloat list \<Rightarrow> real list
     \<Rightarrow> npfloat list \<times> real list" where
  "bce_loop m method [] ce probs = (ce, probs)"
| "bce_loop m method ((u, i, l) # rest) ce probs =
     (let prob = fst (predict_method m u i method);
          probs' = probs @ [prob]
      in if l = 1 then bce_loop m method rest (ce @ [np_neg (np_log prob)]) probs'
         else if l = 0 then bce_loop m method rest (ce @ [np_neg (np_log (1 - prob))]) probs'
         else bce_loop m method rest ce probs')"

definition binary_cross_entropy ::
  "model \<Rightarrow> user list \<Rightarrow> item list \<Rightarrow> real list \<Rightarrow> string \<Rightarrow> npfloat \<times> real list" where
  "binary_cross_entropy m user item label method =
     (case bce_loop m method (zip user (zip item label)) [] [] of
        (ce, probs) \<Rightarrow> (np_mean ce, probs))"

subsection \<open>float64 addition and a model with shifted scores\<close>






subsection \<open>A concrete model and concrete datasets\<close>

text \<open>
  The model knows three items. It scores them 3, 1, 2 for user 0 and 1, 3, 2 for every
  other user, predicts the rating u + i for the pair (u, i), and the probability 1/2 for
  every pair; its engine returns 0.
\<close>

definition example_model :: model where
  "example_model =
     \<lparr>predict = (\<lambda>u i. real u + real i),
      predict_method = (\<lambda>u i method. (1 / 2, 0)),
      predict_user = (\<lambda>u. if u = 0 then [3, 1, 2] else [1, 3, 2]),
      sess_run = (\<lambda>user_indices item_indices ratings. Finite 0)\<rparr>"

text \<open>
  Two users whose two best-scored items are relevant. The train split has the samples
  (user 0, item 1) and (user 1, item 0); the test split is empty.
\<close>

definition example_dataset :: dataset where
  "example_dataset =
     \<lparr>train_user_indices = [0, 1], train_item_indices = [1, 0],
      train_labels = [1, 0], train_ratings = [2, 1],
      test_user_indices = [], test_item_indices = [],
      test_labels = [], test_ratings = [],
      train_user = [(0, {0, 2}), (1, {1, 2})], n_users = 2\<rparr>"

text \<open>Two users; the best-scored item of user 1 is not relevant.\<close>

definition partial_dataset :: dataset where
  "partial_dataset =
     \<lparr>train_user_indices = [0, 1], train_item_indices = [0, 2],
      train_labels = [1, 1], train_ratings = [1, 1],
      test_user_indices = [], test_item_indices = [],
      test_labels = [], test_ratings = [],
      train_user = [(0, {0, 2}), (1, {2})], n_users = 2\<rparr>"

text \<open>No sample and no user.\<close>

definition empty_dataset :: dataset where
  "empty_dataset =
     \<lparr>train_user_indices = [], train_item_indices = [],
      train_labels = [], train_ratings = [],
      test_user_indices = [], test_item_indices = [],
      test_labels = [], test_ratings = [],
      train_user = [], n_users = 0\<rparr>"

text \<open>One user, with an empty relevant set.\<close>

definition cold_dataset :: dataset where
  "cold_dataset =
     \<lparr>train_user_indices = [], train_item_indices = [],
      train_labels = [], train_ratings = [],
      test_user_indices = [], test_item_indices = [],
      test_labels = [], test_ratings = [],
      train_user = [(0, {})], n_users = 1\<rparr>"

text \<open>
  Two users, of which user 1 has its only sample in the test split: \<open>n_users\<close> is 2 and
  \<open>train_user\<close> has the key 0 alone.
\<close>

definition sparse_dataset :: dataset where
  "sparse_dataset =
     \<lparr>train_user_indices = [0], train_item_indices = [0],
      train_labels = [1], train_ratings = [1],
      test_user_indices = [1], test_item_indices = [1],
      test_labels = [1], test_ratings = [1],
      train_user = [(0, {0, 2})], n_users = 2\<rparr>"





section \<open>Properties\<close>

subsection \<open>numpy values\<close>

lemma foldl_np_add_Finite:
  "foldl np_add (Finite a) (map Finite xs) = Finite (a + sum_list xs)"
  by (induction xs arbitrary: a) (simp_all add: add.assoc)

lemma np_mean_Finite:
  "np_mean (map Finite xs) = (if xs = [] then NaN else Finite (sum_list xs / real (length xs)))"
  by (simp add: np_mean_def foldl_np_add_Finite)

lemma np_mean_Nil: "np_mean [] = NaN"
  by (simp add: np_mean_def)

lemma np_neg_log: "0 < p \<Longrightarrow> np_neg (np_log p) = Finite (- ln p)"
  by (simp add: np_log_def)

subsection \<open>The RMSE loop\<close>

lemma predict_loop_eq:
  "predict_loop m xs pred calls = (pred @ map (\<lambda>(u, i). predict m u i) xs, calls @ xs)"
  by (induction xs arbitrary: pred calls) auto

lemma np_sub_same_length:
  "length xs = length ys \<Longrightarrow> np_sub xs ys = Inr (map (\<lambda>(x, y). x - y) (zip xs ys))"
  by (simp add: np_sub_def)

lemma rmse_body_eq:
  assumes "length user_indices = length item_indices"
    and "length item_indices = length ratings"
    and "user_indices \<noteq> []"
  shows "rmse_body m user_indices item_indices ratings =
           (Inr (Finite (sqrt (sum_list (map (\<lambda>((u, i), r). (predict m u i - r) ^ 2)
                                  (zip (zip user_indices item_indices) ratings))
                               / real (length ratings)))),
            zip user_indices item_indices)"
proof -
  let ?pred = "map (\<lambda>(u, i). predict m u i) (zip user_indices item_indices)"
  let ?sq = "map (\<lambda>((u, i), r). (predict m u i - r) ^ 2) (zip (zip user_indices item_indices) ratings)"
  have len: "length ?pred = length ratings"
    using assms by simp
  have diff: "np_sub ?pred ratings = Inr (map (\<lambda>(x, y). x - y) (zip ?pred ratings))"
    using len by (rule np_sub_same_length)
  have sq: "map (\<lambda>x. x ^ 2) (map (\<lambda>(x, y). x - y) (zip ?pred ratings)) = ?sq"
    by (simp add: zip_map1 case_prod_unfold)
  have ne: "?sq \<noteq> []"
    using assms by (cases user_indices; cases item_indices; cases ratings) simp_all
  have nonneg: "0 \<le> sum_list ?sq / real (length ratings)"
    by (intro divide_nonneg_nonneg sum_list_nonneg) auto
  have lsq: "length ?sq = length ratings"
    using assms by simp
  have "map (\<lambda>x. Finite (x ^ 2)) (map (\<lambda>(x, y). x - y) (zip ?pred ratings))
          = map Finite (map (\<lambda>x. x ^ 2) (map (\<lambda>(x, y). x - y) (zip ?pred ratings)))"
    by simp
  then have "np_mean (map (\<lambda>x. Finite (x ^ 2)) (map (\<lambda>(x, y). x - y) (zip ?pred ratings)))
          = np_mean (map Finite ?sq)"
    by (simp only: sq)
  also have "\<dots> = Finite (sum_list ?sq / real (length ratings))"
    using ne lsq by (simp only: np_mean_Finite if_False)
  finally have mean: "np_mean (map (\<lambda>x. Finite (x ^ 2)) (map (\<lambda>(x, y). x - y) (zip ?pred ratings)))
          = Finite (sum_list ?sq / real (length ratings))" .
  show ?thesis
    unfolding rmse_body_def predict_loop_eq
    using diff mean nonneg by simp
qed

lemma zip_triples:
  "zip (map fst samples) (map (fst \<circ> snd) samples) = map (\<lambda>(u, i, r). (u, i)) samples"
  by (induction samples) auto

lemma squares_triples:
  "map (\<lambda>((u, i), r). (predict m u i - r) ^ 2)
       (zip (zip (map fst samples) (map (fst \<circ> snd) samples)) (map (snd \<circ> snd) samples))
     = map (\<lambda>(u, i, r). (predict m u i - r) ^ 2) samples"
  by (induction samples) auto

lemma rmse_body_triples:
  assumes "samples \<noteq> []"
  shows "rmse_body m (map fst samples) (map (fst \<circ> snd) samples) (map (snd \<circ> snd) samples) =
           (Inr (Finite (sqrt (sum_list (map (\<lambda>(u, i, r). (predict m u i - r) ^ 2) samples)
                               / real (length samples)))),
            map (\<lambda>(u, i, r). (u, i)) samples)"
proof -
  have "rmse_body m (map fst samples) (map (fst \<circ> snd) samples) (map (snd \<circ> snd) samples) =
           (Inr (Finite (sqrt (sum_list (map (\<lambda>((u, i), r). (predict m u i - r) ^ 2)
                (zip (zip (map fst samples) (map (fst \<circ> snd) samples)) (map (snd \<circ> snd) samples)))
                               / real (length (map (snd \<circ> snd) samples))))),
            zip (map fst samples) (map (fst \<circ> snd) samples))"
    using assms by (intro rmse_body_eq) simp_all
  then have "rmse_body m (map fst samples) (map (fst \<circ> snd) samples) (map (snd \<circ> snd) samples) =
           (Inr (Finite (sqrt (sum_list (map (\<lambda>(u, i, r). (predict m u i - r) ^ 2) samples)
                               / real (length (map (snd \<circ> snd) samples))))),
            zip (map fst samples) (map (fst \<circ> snd) samples))"
    by (simp only: squares_triples)
  then show ?thesis
    by (simp only: zip_triples length_map)
qed

lemma rmse_body_Nil: "rmse_body m [] [] [] = (Inr NaN, [])"
  by (simp add: rmse_body_def np_sub_def np_mean_def)

subsection \<open>RMSE: one prediction per sample, and the formula\<close>

text \<open>
  C4. For a non-empty sequence of (user, item, true value) triples that a split selects,
  \<open>rmse_knn\<close> and \<open>rmse_svd\<close> call \<open>model.predict\<close> exactly once per triple, in
  the order of the sequence (the call log is the sequence of the (user, item) pairs), and
  return the square root of the mean of the squared differences between prediction and
  true value over the whole sequence.
\<close>

theorem rmse_one_call_per_sample:
  assumes "samples \<noteq> []"
  shows "(knn_split d mode = Some (map fst samples, map (fst \<circ> snd) samples, map (snd \<circ> snd) samples)
            \<longrightarrow> rmse_knn m d mode =
                 (Inr (Finite (sqrt (sum_list (map (\<lambda>(u, i, r). (predict m u i - r) ^ 2) samples)
                                     / real (length samples)))),
                  map (\<lambda>(u, i, r). (u, i)) samples))
       \<and> (svd_split d mode = Some (map fst samples, map (fst \<circ> snd) samples, map (snd \<circ> snd) samples)
            \<longrightarrow> rmse_svd m d baseline mode =
                 (Inr (Finite (sqrt (sum_list (map (\<lambda>(u, i, r). (predict m u i - r) ^ 2) samples)
                                     / real (length samples)))),
                  map (\<lambda>(u, i, r). (u, i)) samples))"
  using rmse_body_triples [OF assms, of m]
  by (simp add: rmse_knn_def rmse_svd_def)

theorem rmse_one_call_per_sample_witness:
  "[(0, 1, 1), (1, 0, 0)] \<noteq> ([] :: (user \<times> item \<times> real) list)
   \<and> knn_split example_dataset ''train'' =
       Some (map fst [(0, 1, 1), (1, 0, 0)], map (fst \<circ> snd) [(0, 1, 1), (1, 0, 0)],
             map (snd \<circ> snd) [(0, 1, 1), (1, 0, 0)])
   \<and> rmse_knn example_model example_dataset ''train'' =
       (Inr (Finite (sqrt (1 / 2))), [(0, 1), (1, 0)])
   \<and> [(0, 1, 2), (1, 0, 1)] \<noteq> ([] :: (user \<times> item \<times> real) list)
   \<and> svd_split example_dataset ''train'' =
       Some (map fst [(0, 1, 2), (1, 0, 1)], map (fst \<circ> snd) [(0, 1, 2), (1, 0, 1)],
             map (snd \<circ> snd) [(0, 1, 2), (1, 0, 1)])
   \<and> rmse_svd example_model example_dataset False ''train'' =
       (Inr (Finite (sqrt (1 / 2))), [(0, 1), (1, 0)])"
  using rmse_one_call_per_sample
    [of "[(0, 1, 1), (1, 0, 0)]" example_dataset "''train''" example_model False]
    rmse_one_call_per_sample
    [of "[(0, 1, 2), (1, 0, 1)]" example_dataset "''train''" example_model False]
  by (simp add: knn_split_def svd_split_def example_dataset_def example_model_def)

subsection \<open>RMSE: a mode outside train and test\<close>

text \<open>
  C7 states that a mode outside train and test is rejected by an explicit error rather
  than by falling through the dispatch. For the mode \<open>valid\<close> the dispatch binds nothing
  and raises nothing; the failure is the \<open>UnboundLocalError\<close> of the later read of
  \<open>user_indices\<close>.
\<close>

theorem rmse_unknown_mode_counterexample:
  "knn_split example_dataset ''valid'' = None
   \<and> rmse_knn example_model example_dataset ''valid'' = (Inl UnboundLocalError, [])"
  by (simp add: rmse_knn_def knn_split_def)

text \<open>
  C7, as the code has it. For every mode other than train and test the dispatch of
  \<open>rmse_knn\<close>, \<open>rmse_svd\<close> and \<open>rmse_tf\<close> falls through with the three variables
  unbound, and the call fails with \<open>UnboundLocalError\<close> at the first read of
  \<open>user_indices\<close>, before any call to \<open>model.predict\<close>.
\<close>

theorem rmse_unknown_mode:
  assumes "mode \<noteq> ''train''" and "mode \<noteq> ''test''"
  shows "knn_split d mode = None \<and> svd_split d mode = None
       \<and> rmse_knn m d mode = (Inl UnboundLocalError, [])
       \<and> rmse_svd m d baseline mode = (Inl UnboundLocalError, [])
       \<and> rmse_tf m d mode = Inl UnboundLocalError"
  using assms by (simp add: rmse_knn_def rmse_svd_def rmse_tf_def knn_split_def svd_split_def)

theorem rmse_unknown_mode_witness:
  "''eval'' \<noteq> ''train'' \<and> ''eval'' \<noteq> ''test''
   \<and> rmse_knn example_model example_dataset ''eval'' = (Inl UnboundLocalError, [])
   \<and> rmse_svd example_model example_dataset True ''eval'' = (Inl UnboundLocalError, [])
   \<and> rmse_tf example_model example_dataset ''eval'' = Inl UnboundLocalError"
  using rmse_unknown_mode [of "''eval''" example_dataset example_model True]
  by simp

subsection \<open>The cross-entropy loop\<close>

lemma bce_loop_eq:
  "bce_loop m method xs ce probs =
     (ce @ map (\<lambda>(u, i, l). if l = 1 then np_neg (np_log (fst (predict_method m u i method)))
                               else np_neg (np_log (1 - fst (predict_method m u i method))))
               (filter (\<lambda>(u, i, l). l = 1 \<or> l = 0) xs),
      probs @ map (\<lambda>(u, i, l). fst (predict_method m u i method)) xs)"
proof (induction xs arbitrary: ce probs)
  case Nil
  show ?case by simp
next
  case (Cons x xs)
  obtain u i l where x: "x = (u, i, l)"
    by (cases x) auto
  consider "l = 1" | "l \<noteq> 1" "l = 0" | "l \<noteq> 1" "l \<noteq> 0"
    by blast
  then show ?case
  proof cases
    case 1
    then show ?thesis
      by (simp add: x Let_def Cons.IH)
  next
    case 2
    then show ?thesis
      by (simp add: x Let_def Cons.IH)
  next
    case 3
    then show ?thesis
      by (simp add: x Let_def Cons.IH)
  qed
qed

lemma binary_cross_entropy_eq:
  "binary_cross_entropy m user item label method =
     (np_mean (map (\<lambda>(u, i, l). if l = 1 then np_neg (np_log (fst (predict_method m u i method)))
                               else np_neg (np_log (1 - fst (predict_method m u i method))))
               (filter (\<lambda>(u, i, l). l = 1 \<or> l = 0) (zip user (zip item label)))),
      map (\<lambda>(u, i, l). fst (predict_method m u i method)) (zip user (zip item label)))"
  by (simp add: binary_cross_entropy_def bce_loop_eq)

lemma zip3_triples:
  "zip (map fst samples) (zip (map (fst \<circ> snd) samples) (map (snd \<circ> snd) samples)) = samples"
  by (induction samples) auto

subsection \<open>Cross-entropy: the terms and the result\<close>

text \<open>
  C5. For a non-empty sequence of samples whose labels are all 1.0 or 0.0,
  \<open>binary_cross_entropy\<close> returns the pair of the mean of the per-sample terms over all
  samples and the predicted probabilities of all samples in input order. The term of a
  sample with label 1.0 is \<open>-np.log(p)\<close> and that of a sample with label 0.0 is
  \<open>-np.log(1 - p)\<close>, p being the predicted probability of the sample; when every
  probability lies strictly between 0 and 1 these are \<open>- ln p\<close> and \<open>- ln (1 - p)\<close> and the
  first component is their arithmetic mean.
\<close>

theorem binary_cross_entropy_terms:
  assumes "samples \<noteq> []"
    and "\<forall>(u, i, l) \<in> set samples. l = 1 \<or> l = 0"
  shows "binary_cross_entropy m (map fst samples) (map (fst \<circ> snd) samples)
             (map (snd \<circ> snd) samples) method =
           (np_mean (map (\<lambda>(u, i, l).
                        if l = 1 then np_neg (np_log (fst (predict_method m u i method)))
                        else np_neg (np_log (1 - fst (predict_method m u i method)))) samples),
            map (\<lambda>(u, i, l). fst (predict_method m u i method)) samples)
       \<and> ((\<forall>(u, i, l) \<in> set samples. 0 < fst (predict_method m u i method)
                                     \<and> fst (predict_method m u i method) < 1) \<longrightarrow>
            fst (binary_cross_entropy m (map fst samples) (map (fst \<circ> snd) samples)
                   (map (snd \<circ> snd) samples) method) =
              Finite (sum_list (map (\<lambda>(u, i, l).
                          if l = 1 then - ln (fst (predict_method m u i method))
                          else - ln (1 - fst (predict_method m u i method))) samples)
                      / real (length samples)))"
proof -
  let ?p = "\<lambda>u i. fst (predict_method m u i method)"
  let ?t = "\<lambda>(u, i, l). if l = 1 then np_neg (np_log (?p u i)) else np_neg (np_log (1 - ?p u i))"
  let ?r = "\<lambda>(u, i, l). if l = 1 then - ln (?p u i) else - ln (1 - ?p u i)"
  have all: "filter (\<lambda>(u, i, l). l = 1 \<or> l = 0) samples = samples"
    using assms(2) by (intro filter_True) auto
  have first: "binary_cross_entropy m (map fst samples) (map (fst \<circ> snd) samples)
             (map (snd \<circ> snd) samples) method = (np_mean (map ?t samples), map (\<lambda>(u, i, l). ?p u i) samples)"
    by (simp only: binary_cross_entropy_eq zip3_triples all)
  have second: "np_mean (map ?t samples) = Finite (sum_list (map ?r samples) / real (length samples))"
    if range: "\<forall>(u, i, l) \<in> set samples. 0 < ?p u i \<and> ?p u i < 1"
  proof -
    have "map ?t samples = map Finite (map ?r samples)"
      using range by (induction samples) (auto simp: np_log_def)
    then have "np_mean (map ?t samples) = np_mean (map Finite (map ?r samples))"
      by (simp only:)
    also have "\<dots> = Finite (sum_list (map ?r samples) / real (length samples))"
      using assms(1) by (simp only: np_mean_Finite map_is_Nil_conv if_False length_map)
    finally show ?thesis .
  qed
  show ?thesis
    using first second by simp
qed

theorem binary_cross_entropy_terms_witness:
  "[(0, 1, 1), (1, 0, 0)] \<noteq> ([] :: (user \<times> item \<times> real) list)
   \<and> map (snd \<circ> snd) [(0 :: user, 1 :: item, 1 :: real), (1, 0, 0)] = [1, 0]
   \<and> fst (predict_method example_model 0 1 ''mf'') = 1 / 2
   \<and> fst (predict_method example_model 1 0 ''mf'') = 1 / 2
   \<and> binary_cross_entropy example_model [0, 1] [1, 0] [1, 0] ''mf'' = (Finite (ln 2), [1 / 2, 1 / 2])"
  using binary_cross_entropy_terms [of "[(0, 1, 1), (1, 0, 0)]" example_model "''mf''"]
  by (simp add: example_model_def np_log_def np_mean_def ln_div)

subsection \<open>Cross-entropy: labels other than 1.0 and 0.0\<close>

text \<open>
  C10. For every input, \<open>binary_cross_entropy\<close> returns the predicted probability of
  every sample, also of a sample whose label is neither 1.0 nor 0.0, while the mean is
  taken over the terms of the samples with label 1.0 or 0.0 only: a sample with another
  label adds no term and raises nothing. When no label is 1.0 or 0.0 the mean is taken
  over the empty sequence, which is NaN.
\<close>

theorem binary_cross_entropy_invalid_label:
  "snd (binary_cross_entropy m user item label method) =
       map (\<lambda>(u, i, l). fst (predict_method m u i method)) (zip user (zip item label))
   \<and> fst (binary_cross_entropy m user item label method) =
       np_mean (map (\<lambda>(u, i, l).
                   if l = 1 then np_neg (np_log (fst (predict_method m u i method)))
                   else np_neg (np_log (1 - fst (predict_method m u i method))))
                 (filter (\<lambda>(u, i, l). l = 1 \<or> l = 0) (zip user (zip item label))))
   \<and> ((\<forall>l \<in> set label. l \<noteq> 1 \<and> l \<noteq> 0) \<longrightarrow>
        fst (binary_cross_entropy m user item label method) = np_mean []
        \<and> fst (binary_cross_entropy m user item label method) = NaN)"
proof -
  have "filter (\<lambda>(u, i, l). l = 1 \<or> l = 0) (zip user (zip item label)) = []"
    if "\<forall>l \<in> set label. l \<noteq> 1 \<and> l \<noteq> 0"
    using that by (auto simp: filter_empty_conv dest!: set_zip_rightD)
  then show ?thesis
    by (auto simp: binary_cross_entropy_eq np_mean_Nil)
qed

theorem binary_cross_entropy_invalid_label_witness:
  "(2 :: real) \<noteq> 1 \<and> (2 :: real) \<noteq> 0
   \<and> binary_cross_entropy example_model [0] [1] [2] ''mf'' = (NaN, [1 / 2])
   \<and> binary_cross_entropy example_model [0, 1] [1, 0] [2, 1] ''mf'' = (Finite (ln 2), [1 / 2, 1 / 2])"
  using binary_cross_entropy_invalid_label [of example_model "[0]" "[1]" "[2]" "''mf''"]
    binary_cross_entropy_invalid_label [of example_model "[0, 1]" "[1, 0]" "[2, 1]" "''mf''"]
  by (simp add: example_model_def np_log_def np_mean_def ln_div prod_eq_iff)

subsection \<open>The ranking loops\<close>

lemma length_argsort: "length (argsort ranklist) = length ranklist"
  by (simp add: argsort_def)

lemma length_top_k_list: "length (top_k_list ranklist k) = min k (length ranklist)"
  by (simp add: top_k_list_def length_argsort min.commute)

lemma range_bounds: "\<forall>i \<in> set [1..<k + 1]. 1 \<le> i \<and> i \<le> k"
  by auto

lemma precision_loop_eq:
  "precision_loop xs rel precision_i = precision_i + length (filter (\<lambda>pred. pred \<in> rel) xs)"
  by (induction xs arbitrary: precision_i) auto

lemma AP_loop_none_relevant:
  assumes "\<forall>i \<in> set is. 1 \<le> i \<and> i \<le> length top_k"
    and "\<forall>x \<in> set top_k. x \<notin> r"
  shows "AP_loop top_k (Some r) is precision_k count_relevant_k = Inr (precision_k, count_relevant_k)"
  using assms
proof (induction "is" arbitrary: precision_k count_relevant_k)
  case Nil
  show ?case by simp
next
  case (Cons i rest)
  have bound: "i - 1 < length top_k"
    using Cons.prems(1) by auto
  then have "top_k ! (i - 1) \<notin> r"
    using Cons.prems(2) by simp
  then show ?case
    using bound Cons by simp
qed

lemma AP_loop_in_bounds:
  assumes "\<forall>i \<in> set is. 1 \<le> i \<and> i \<le> length top_k"
  shows "\<exists>p c. AP_loop top_k (Some r) is precision_k count_relevant_k = Inr (p, c)"
  using assms
proof (induction "is" arbitrary: precision_k count_relevant_k)
  case Nil
  show ?case by simp
next
  case (Cons i rest)
  have bound: "\<not> length top_k \<le> i - 1"
    using Cons.prems by auto
  have rest: "\<forall>i \<in> set rest. 1 \<le> i \<and> i \<le> length top_k"
    using Cons.prems by simp
  show ?case
    using bound Cons.IH [OF rest] by simp
qed

lemma AP_loop_out_of_bounds:
  assumes "\<exists>i \<in> set is. length top_k \<le> i - 1"
  shows "AP_loop top_k (Some r) is precision_k count_relevant_k = Inl IndexError"
  using assms
proof (induction "is" arbitrary: precision_k count_relevant_k)
  case Nil
  then show ?case by simp
next
  case (Cons i rest)
  show ?case
  proof (cases "length top_k \<le> i - 1")
    case True
    then show ?thesis by simp
  next
    case False
    then have "\<exists>i \<in> set rest. length top_k \<le> i - 1"
      using Cons.prems by auto
    then show ?thesis
      using False Cons.IH by simp
  qed
qed

lemma MAP_loop_eq:
  assumes "\<forall>u \<in> set users. AP_at_k m d u k = Inr (ap u)"
  shows "MAP_loop m d k users average_precision_at_k =
           Inr (average_precision_at_k + sum_list (map ap users))"
  using assms
  by (induction users arbitrary: average_precision_at_k) (simp_all add: add.assoc)

lemma hit_loop_eq:
  "hit_loop xs (Some r) user_HitRatio = Inr (user_HitRatio + length (filter (\<lambda>i. i \<in> r) xs))"
  by (induction xs arbitrary: user_HitRatio) auto

lemma DCG_loop_eq:
  "DCG_loop xs (Some r) DCG =
     Inr (DCG + sum_list (map (\<lambda>(n, item). if item \<in> r then 1 / log 2 (real (n + 2)) else 0) xs))"
  by (induction xs arbitrary: DCG) (auto simp: add.assoc)

lemma IDCG_loop_eq:
  "IDCG_loop ns IDCG = IDCG + sum_list (map (\<lambda>n. 1 / log 2 (real (n + 2))) ns)"
  by (induction ns arbitrary: IDCG) (auto simp: add.assoc)

lemma discount_pos: "0 < 1 / log 2 (real (n + 2))"
  by simp

lemma sum_list_pos_real:
  fixes xs :: "real list"
  assumes "xs \<noteq> []" and "\<forall>x \<in> set xs. 0 < x"
  shows "0 < sum_list xs"
  using assms
proof (induction xs)
  case Nil
  then show ?case by simp
next
  case (Cons x xs)
  then show ?case
    by (cases xs) (auto intro: add_pos_pos)
qed

lemma IDCG_pos:
  assumes "1 \<le> k"
  shows "0 < IDCG_loop [0..<k] 0"
proof -
  have "map (\<lambda>n. 1 / log 2 (real (n + 2))) [0..<k] \<noteq> []"
    using assms by simp
  moreover have "\<forall>x \<in> set (map (\<lambda>n. 1 / log 2 (real (n + 2))) [0..<k]). 0 < x"
    by auto
  ultimately have "0 < sum_list (map (\<lambda>n. 1 / log 2 (real (n + 2))) [0..<k])"
    by (rule sum_list_pos_real)
  then show ?thesis
    by (simp add: IDCG_loop_eq)
qed

lemma sum_list_ones: "sum_list (map (\<lambda>u. 1 :: real) users) = real (length users)"
  by (induction users) simp_all

lemma NDCG_loop_eq:
  assumes "\<forall>u \<in> set users. user_ndcg m d k u = Inr (q u)"
  shows "NDCG_loop m d k users NDCG = Inr (NDCG + sum_list (map q users))"
  using assms
  by (induction users arbitrary: NDCG) (simp_all add: add.assoc)

lemma all_relevant_gain:
  assumes "length top_k = k" and "\<forall>n < k. top_k ! n \<in> rel"
  shows "map (\<lambda>(n, item). if item \<in> rel then 1 / log 2 (real (n + 2)) else 0) (zip [0..<k] top_k)
           = map (\<lambda>n. 1 / log 2 (real (n + 2))) [0..<k]"
  using assms by (intro nth_equalityI) simp_all

lemma user_ndcg_all_relevant:
  assumes "1 \<le> k"
    and "map_of (train_user d) u = Some rel"
    and "\<forall>n < k. n < length (top_k_list (predict_user m u) k)
                  \<and> top_k_list (predict_user m u) k ! n \<in> rel"
  shows "user_ndcg m d k u = Inr 1"
proof -
  let ?top_k = "top_k_list (predict_user m u) k"
  have "k - 1 < length ?top_k"
    using assms(1,3) by simp
  moreover have "length ?top_k \<le> k"
    by (simp add: length_top_k_list)
  ultimately have len: "length ?top_k = k"
    using assms(1) by linarith
  have rel: "\<forall>n < k. ?top_k ! n \<in> rel"
    using assms(3) by simp
  have dcg: "DCG_loop (zip [0..<length ?top_k] ?top_k) (Some rel) 0
               = Inr (sum_list (map (\<lambda>n. 1 / log 2 (real (n + 2))) [0..<k]))"
    using all_relevant_gain [OF len rel] by (simp add: DCG_loop_eq len)
  have idcg: "IDCG_loop [0..<k] 0 = sum_list (map (\<lambda>n. 1 / log 2 (real (n + 2))) [0..<k])"
    by (simp add: IDCG_loop_eq)
  have pos: "0 < IDCG_loop [0..<k] 0"
    using assms(1) by (rule IDCG_pos)
  show ?thesis
    unfolding user_ndcg_def Let_def assms(2) dcg
    using pos by (simp add: idcg py_div_def)
qed

lemma hit_loop_no_IndexError: "hit_loop xs rel h \<noteq> Inl IndexError"
  by (cases rel; cases xs) (simp_all add: hit_loop_eq)

lemma DCG_loop_no_IndexError: "DCG_loop xs rel DCG \<noteq> Inl IndexError"
  by (cases rel; cases xs) (auto simp: DCG_loop_eq)

lemma py_div_no_IndexError: "py_div a b \<noteq> Inl IndexError"
  by (simp add: py_div_def)

lemma user_hit_ratio_no_IndexError: "user_hit_ratio m d k u \<noteq> Inl IndexError"
  using hit_loop_no_IndexError py_div_no_IndexError
  by (auto simp: user_hit_ratio_def Let_def split: sum.splits)

lemma user_ndcg_no_IndexError: "user_ndcg m d k u \<noteq> Inl IndexError"
  using DCG_loop_no_IndexError py_div_no_IndexError
  by (auto simp: user_ndcg_def Let_def split: sum.splits)

lemma HitRatio_loop_no_IndexError: "HitRatio_loop m d k users HitRatio \<noteq> Inl IndexError"
  using user_hit_ratio_no_IndexError
  by (induction users arbitrary: HitRatio) (auto split: sum.splits)

lemma NDCG_loop_no_IndexError: "NDCG_loop m d k users NDCG \<noteq> Inl IndexError"
  using user_ndcg_no_IndexError
  by (induction users arbitrary: NDCG) (auto split: sum.splits)

lemma HitRatio_at_k_no_IndexError: "HitRatio_at_k m d k \<noteq> Inl IndexError"
  using HitRatio_loop_no_IndexError
  by (auto simp: HitRatio_at_k_def split: sum.splits)

lemma NDCG_at_k_no_IndexError: "NDCG_at_k m d k \<noteq> Inl IndexError"
  using NDCG_loop_no_IndexError py_div_no_IndexError
  by (auto simp: NDCG_at_k_def split: sum.splits)

lemma key_lookup:
  assumes "u \<in> set (map fst xs)"
  shows "map_of xs u = Some (the (map_of xs u))"
proof -
  have "map_of xs u \<noteq> None"
    using assms by (simp add: map_of_eq_None_iff)
  then show ?thesis
    by simp
qed

lemma user_hit_ratio_key:
  assumes "1 \<le> k" and "u \<in> set (map fst (train_user d))"
  shows "user_hit_ratio m d k u =
           Inr (real (length (filter (\<lambda>i. i \<in> the (map_of (train_user d) u))
                                (top_k_list (predict_user m u) k))) / real k)"
proof -
  have "real k \<noteq> 0"
    using assms(1) by simp
  then show ?thesis
    unfolding user_hit_ratio_def Let_def
    by (subst key_lookup [OF assms(2)]) (simp add: hit_loop_eq py_div_def)
qed

lemma user_ndcg_key:
  assumes "1 \<le> k" and "u \<in> set (map fst (train_user d))"
  shows "user_ndcg m d k u =
           Inr (sum_list (map (\<lambda>(n, item). if item \<in> the (map_of (train_user d) u)
                                            then 1 / log 2 (real (n + 2)) else 0)
                           (zip [0..<length (top_k_list (predict_user m u) k)]
                                (top_k_list (predict_user m u) k)))
                / sum_list (map (\<lambda>n. 1 / log 2 (real (n + 2))) [0..<k]))"
proof -
  have "0 < IDCG_loop [0..<k] 0"
    using assms(1) by (rule IDCG_pos)
  then have "sum_list (map (\<lambda>n. 1 / log 2 (real (n + 2))) [0..<k]) \<noteq> 0"
    by (simp add: IDCG_loop_eq)
  then show ?thesis
    unfolding user_ndcg_def Let_def
    by (subst key_lookup [OF assms(2)]) (simp add: DCG_loop_eq IDCG_loop_eq py_div_def)
qed

lemma HitRatio_loop_eq:
  assumes "\<forall>u \<in> set users. user_hit_ratio m d k u = Inr (h u)"
  shows "HitRatio_loop m d k users HitRatio = Inr (HitRatio @ map h users)"
  using assms
  by (induction users arbitrary: HitRatio) simp_all

subsection \<open>The metrics on the concrete datasets\<close>

lemma upt_1_3: "[1..<2 + 1] = [1, 2]"
  by (simp add: upt_rec)

lemma upt_0_3: "[0..<3] = [0, 1, 2]"
  by (simp add: upt_rec)

lemma top_k_user0: "top_k_list (predict_user example_model 0) 5 = [0, 2, 1]"
  by (simp add: example_model_def top_k_list_def argsort_def upt_rec)

lemma top2_user0: "top_k_list (predict_user example_model 0) 2 = [0, 2]"
  by (simp add: example_model_def top_k_list_def argsort_def upt_rec)

lemma top2_user1: "top_k_list (predict_user example_model 1) 2 = [1, 2]"
  by (simp add: example_model_def top_k_list_def argsort_def upt_rec)

lemma len_user0: "length (predict_user example_model 0) = 3"
  by (simp add: example_model_def)

lemma rel_user0: "map_of (train_user example_dataset) 0 = Some {0, 2}"
  by (simp add: example_dataset_def)

lemma rel_user1: "map_of (train_user example_dataset) 1 = Some {1, 2}"
  by (simp add: example_dataset_def)

lemma keys_example: "map fst (train_user example_dataset) = [0, 1]"
  by (simp add: example_dataset_def)

lemma AP_user0: "AP_at_k example_model example_dataset 0 2 = Inr 1"
  unfolding AP_at_k_def Let_def top2_user0 rel_user0 upt_1_3
  by (simp add: py_div_def)

lemma rel_sparse: "map_of (train_user sparse_dataset) 0 = Some {0, 2}"
  by (simp add: sparse_dataset_def)

lemma keys_sparse: "map fst (train_user sparse_dataset) = [0]"
  by (simp add: sparse_dataset_def)

lemma n_users_sparse: "n_users sparse_dataset = 2"
  by (simp add: sparse_dataset_def)

lemma AP_sparse: "AP_at_k example_model sparse_dataset 0 2 = Inr 1"
  unfolding AP_at_k_def Let_def top2_user0 rel_sparse upt_1_3
  by (simp add: py_div_def)

lemma rel_partial0: "map_of (train_user partial_dataset) 0 = Some {0, 2}"
  by (simp add: partial_dataset_def)

lemma rel_partial1: "map_of (train_user partial_dataset) 1 = Some {2}"
  by (simp add: partial_dataset_def)

lemma keys_partial: "map fst (train_user partial_dataset) = [0, 1]"
  by (simp add: partial_dataset_def)

lemma AP_partial0: "AP_at_k example_model partial_dataset 0 2 = Inr 1"
  unfolding AP_at_k_def Let_def top2_user0 rel_partial0 upt_1_3
  by (simp add: py_div_def)

lemma AP_partial1: "AP_at_k example_model partial_dataset 1 2 = Inr (1 / 2)"
  unfolding AP_at_k_def Let_def top2_user1 rel_partial1 upt_1_3
  by (simp add: py_div_def)

lemma top_k_user1: "top_k_list (predict_user example_model 1) 5 = [1, 2, 0]"
  by (simp add: example_model_def top_k_list_def argsort_def upt_rec)

lemma mean_of_two_equal: "(2 + 2 / a) / (s * 2) = (1 + 1 / a) / (s :: real)"
proof -
  have "(2 + 2 / a) / (s * 2) = (2 * (1 + 1 / a)) / (2 * s)"
    by (simp add: distrib_left mult.commute)
  also have "\<dots> = (1 + 1 / a) / s"
    by (rule mult_divide_mult_cancel_left) simp
  finally show ?thesis .
qed

subsection \<open>Average precision without a relevant item\<close>

text \<open>
  C1 states that \<open>AP_at_k\<close> returns 0.0 and raises nothing whenever no item of the top k
  is relevant, for every score vector. The example model scores three items; for a user
  with an empty relevant set and k = 5 the Top-k list has three entries, none relevant,
  and the walk raises \<open>IndexError\<close> at rank 4.
\<close>

theorem AP_short_vector_counterexample:
  "top_k_list (predict_user example_model 0) 5 = [0, 2, 1]
   \<and> map_of (train_user cold_dataset) 0 = Some {}
   \<and> AP_at_k example_model cold_dataset 0 5 = Inl IndexError"
  by (simp add: AP_at_k_def example_model_def cold_dataset_def top_k_list_def argsort_def upt_rec)

text \<open>
  C1, amended. For every user with a relevant set, every cutoff k and every score vector
  with at least k entries, if no item of the Top-k list is in the relevant set then
  \<open>AP_at_k\<close> returns 0.0: the division by the zero count raises \<open>ZeroDivisionError\<close>,
  which the function catches.
\<close>

theorem AP_zero_without_relevant:
  assumes "k \<le> length (predict_user m u)"
    and "map_of (train_user d) u = Some rel"
    and "\<forall>i \<in> set (top_k_list (predict_user m u) k). i \<notin> rel"
  shows "AP_at_k m d u k = Inr 0"
proof -
  let ?top_k = "top_k_list (predict_user m u) k"
  have len: "length ?top_k = k"
    using assms(1) by (simp add: length_top_k_list)
  have "\<forall>i \<in> set [1..<k + 1]. 1 \<le> i \<and> i \<le> length ?top_k"
    unfolding len by (rule range_bounds)
  then have "AP_loop ?top_k (Some rel) [1..<k + 1] 0 0 = Inr (0, 0)"
    using assms(3) by (rule AP_loop_none_relevant)
  then show ?thesis
    by (simp add: AP_at_k_def assms(2) py_div_def)
qed

theorem AP_zero_without_relevant_witness:
  "(2 :: nat) \<le> length (predict_user example_model 0)
   \<and> map_of (train_user cold_dataset) 0 = Some {}
   \<and> top_k_list (predict_user example_model 0) 2 = [0, 2]
   \<and> AP_at_k example_model cold_dataset 0 2 = Inr 0"
  using AP_zero_without_relevant [of 2 example_model 0 cold_dataset "{}"]
  by (simp add: example_model_def cold_dataset_def top_k_list_def argsort_def upt_rec)

subsection \<open>Index bounds of the Top-k list\<close>

text \<open>
  C9 states that for every user u \<open>AP_at_k\<close> fails with an out-of-range access when the
  score vector has fewer than k entries. User 7 is no key of \<open>train_user\<close> in the example
  dataset and has three scores: for k = 5 the first access \<open>top_k[0]\<close> is in bounds, and
  the lookup \<open>dataset.train_user[7]\<close> that follows it raises \<open>KeyError\<close>.
\<close>

theorem AP_unknown_user_counterexample:
  "map_of (train_user example_dataset) 7 = None
   \<and> predict_user example_model 7 = [1, 3, 2]
   \<and> AP_at_k example_model example_dataset 7 5 = Inl KeyError"
proof -
  have none: "map_of (train_user example_dataset) 7 = None"
    by (simp add: example_dataset_def)
  have scores: "predict_user example_model 7 = [1, 3, 2]"
    by (simp add: example_model_def)
  have top: "top_k_list [1, 3, 2] 5 = [1, 2, 0]"
    by (simp add: top_k_list_def argsort_def upt_rec)
  have "AP_at_k example_model example_dataset 7 5 = Inl KeyError"
    unfolding AP_at_k_def Let_def scores top none
    by (simp add: upt_rec)
  then show ?thesis
    using none scores by blast
qed

text \<open>
  C9, amended. Let u be a key of \<open>train_user\<close>. If the score vector of u has at least k
  entries, every access \<open>top_k[i-1]\<close> for i = 1..k is in bounds and \<open>AP_at_k\<close> returns
  a value. If it has fewer than k entries, \<open>AP_at_k\<close> fails with \<open>IndexError\<close>, and the
  Top-k list of u has as many entries as the score vector; the loop bodies of
  \<open>HitRatio_at_k\<close> and \<open>NDCG_at_k\<close> for u count the hits and sum the gains over these
  positions only and divide by k and by the k-term IDCG. For every k >= 1 and whatever
  the lengths of the score vectors, \<open>HitRatio_at_k\<close> returns the mean over the users of
  (hits in the Top-k list) / k and \<open>NDCG_at_k\<close> returns the sum over the users of
  (DCG over the positions of the Top-k list) / (k-term IDCG), divided by \<open>n_users\<close>;
  neither ever fails with \<open>IndexError\<close>.
\<close>

theorem AP_index_bounds:
  assumes "map_of (train_user d) u = Some rel"
  shows "(k \<le> length (predict_user m u) \<longrightarrow>
            (\<forall>i \<in> {1..k}. i - 1 < length (top_k_list (predict_user m u) k))
            \<and> (\<exists>ap. AP_at_k m d u k = Inr ap))
       \<and> (length (predict_user m u) < k \<longrightarrow>
            AP_at_k m d u k = Inl IndexError
            \<and> length (top_k_list (predict_user m u) k) = length (predict_user m u)
            \<and> user_hit_ratio m d k u =
                Inr (real (length (filter (\<lambda>i. i \<in> rel) (top_k_list (predict_user m u) k)))
                     / real k)
            \<and> user_ndcg m d k u =
                Inr (sum_list (map (\<lambda>(n, item). if item \<in> rel then 1 / log 2 (real (n + 2)) else 0)
                                (zip [0..<length (predict_user m u)]
                                     (top_k_list (predict_user m u) k)))
                     / sum_list (map (\<lambda>n. 1 / log 2 (real (n + 2))) [0..<k])))
       \<and> (1 \<le> k \<longrightarrow>
            HitRatio_at_k m d k =
              Inr (np_mean (map (\<lambda>v. Finite
                     (real (length (filter (\<lambda>i. i \<in> the (map_of (train_user d) v))
                                      (top_k_list (predict_user m v) k))) / real k))
                   (map fst (train_user d))))
            \<and> NDCG_at_k m d k =
              Inr (np_div_int
                     (Finite (sum_list (map (\<lambda>v.
                        sum_list (map (\<lambda>(n, item). if item \<in> the (map_of (train_user d) v)
                                                  then 1 / log 2 (real (n + 2)) else 0)
                                   (zip [0..<length (top_k_list (predict_user m v) k)]
                                        (top_k_list (predict_user m v) k)))
                        / sum_list (map (\<lambda>n. 1 / log 2 (real (n + 2))) [0..<k]))
                      (map fst (train_user d)))))
                     (n_users d)))
       \<and> HitRatio_at_k m d k \<noteq> Inl IndexError
       \<and> NDCG_at_k m d k \<noteq> Inl IndexError"
proof (intro conjI impI)
  let ?top_k = "top_k_list (predict_user m u) k"
  {
    assume long: "k \<le> length (predict_user m u)"
    then have len: "length ?top_k = k"
      by (simp add: length_top_k_list)
    show "\<forall>i \<in> {1..k}. i - 1 < length ?top_k"
      using len by auto
    have "\<forall>i \<in> set [1..<k + 1]. 1 \<le> i \<and> i \<le> length ?top_k"
      unfolding len by (rule range_bounds)
    then obtain p c where "AP_loop ?top_k (Some rel) [1..<k + 1] 0 0 = Inr (p, c)"
      using AP_loop_in_bounds by blast
    then show "\<exists>ap. AP_at_k m d u k = Inr ap"
      by (simp add: AP_at_k_def assms py_div_def)
  }
  {
    assume short: "length (predict_user m u) < k"
    then show len: "length ?top_k = length (predict_user m u)"
      by (simp add: length_top_k_list)
    have "k \<in> set [1..<k + 1]" and "length ?top_k \<le> k - 1"
      using short len by auto
    then have "\<exists>i \<in> set [1..<k + 1]. length ?top_k \<le> i - 1"
      by blast
    then have "AP_loop ?top_k (Some rel) [1..<k + 1] 0 0 = Inl IndexError"
      by (rule AP_loop_out_of_bounds)
    then show "AP_at_k m d u k = Inl IndexError"
      by (simp add: AP_at_k_def assms)
    have k: "real k \<noteq> 0"
      using short by simp
    show "user_hit_ratio m d k u =
            Inr (real (length (filter (\<lambda>i. i \<in> rel) ?top_k)) / real k)"
      using k by (simp add: user_hit_ratio_def assms hit_loop_eq py_div_def)
    have "0 < IDCG_loop [0..<k] 0"
      using short by (intro IDCG_pos) simp
    then have idcg: "sum_list (map (\<lambda>n. 1 / log 2 (real (n + 2))) [0..<k]) \<noteq> 0"
      by (simp add: IDCG_loop_eq)
    show "user_ndcg m d k u =
            Inr (sum_list (map (\<lambda>(n, item). if item \<in> rel then 1 / log 2 (real (n + 2)) else 0)
                            (zip [0..<length (predict_user m u)] ?top_k))
                 / sum_list (map (\<lambda>n. 1 / log 2 (real (n + 2))) [0..<k]))"
      using idcg len
      by (simp add: user_ndcg_def assms DCG_loop_eq IDCG_loop_eq py_div_def)
  }
  {
    assume k: "1 \<le> k"
    let ?h = "\<lambda>v. real (length (filter (\<lambda>i. i \<in> the (map_of (train_user d) v))
                                  (top_k_list (predict_user m v) k))) / real k"
    let ?q = "\<lambda>v. sum_list (map (\<lambda>(n, item). if item \<in> the (map_of (train_user d) v)
                                                  then 1 / log 2 (real (n + 2)) else 0)
                                   (zip [0..<length (top_k_list (predict_user m v) k)]
                                        (top_k_list (predict_user m v) k)))
                  / sum_list (map (\<lambda>n. 1 / log 2 (real (n + 2))) [0..<k])"
    have "\<forall>v \<in> set (map fst (train_user d)). user_hit_ratio m d k v = Inr (?h v)"
      using user_hit_ratio_key [OF k] by blast
    then have "HitRatio_loop m d k (map fst (train_user d)) [] = Inr ([] @ map ?h (map fst (train_user d)))"
      by (rule HitRatio_loop_eq)
    then show "HitRatio_at_k m d k = Inr (np_mean (map (\<lambda>v. Finite (?h v)) (map fst (train_user d))))"
      by (simp add: HitRatio_at_k_def comp_def)
    have "\<forall>v \<in> set (map fst (train_user d)). user_ndcg m d k v = Inr (?q v)"
      using user_ndcg_key [OF k] by blast
    then have "NDCG_loop m d k (map fst (train_user d)) 0 = Inr (0 + sum_list (map ?q (map fst (train_user d))))"
      by (rule NDCG_loop_eq)
    moreover have "train_user d \<noteq> []"
      using assms by auto
    ultimately show "NDCG_at_k m d k =
        Inr (np_div_int (Finite (sum_list (map ?q (map fst (train_user d))))) (n_users d))"
      by (simp add: NDCG_at_k_def)
  }
  show "HitRatio_at_k m d k \<noteq> Inl IndexError"
    by (rule HitRatio_at_k_no_IndexError)
  show "NDCG_at_k m d k \<noteq> Inl IndexError"
    by (rule NDCG_at_k_no_IndexError)
qed

theorem AP_index_bounds_witness:
  "map_of (train_user example_dataset) 0 = Some {0, 2}
   \<and> (2 :: nat) \<le> length (predict_user example_model 0)
   \<and> AP_at_k example_model example_dataset 0 2 = Inr 1
   \<and> length (predict_user example_model 0) < (5 :: nat)
   \<and> AP_at_k example_model example_dataset 0 5 = Inl IndexError
   \<and> user_hit_ratio example_model example_dataset 5 0 = Inr (2 / 5)
   \<and> user_ndcg example_model example_dataset 5 0 =
       Inr ((1 + 1 / log 2 3) / sum_list (map (\<lambda>n. 1 / log 2 (real (n + 2))) [0..<5]))
   \<and> (1 :: nat) \<le> 5
   \<and> HitRatio_at_k example_model example_dataset 5 = Inr (Finite (2 / 5))
   \<and> NDCG_at_k example_model example_dataset 5 =
       Inr (Finite ((1 + 1 / log 2 3) / sum_list (map (\<lambda>n. 1 / log 2 (real (n + 2))) [0..<5])))"
proof -
  have short: "length (predict_user example_model 0) < (5 :: nat)"
    by (simp add: len_user0)
  have long: "(2 :: nat) \<le> length (predict_user example_model 0)"
    by (simp add: len_user0)
  have five: "(1 :: nat) \<le> 5"
    by simp
  have n: "n_users example_dataset = 2"
    by (simp add: example_dataset_def)
  have "\<exists>ap. AP_at_k example_model example_dataset 0 2 = Inr ap"
    using AP_index_bounds [OF rel_user0, of 2 example_model] long by blast
  moreover have "AP_at_k example_model example_dataset 0 5 = Inl IndexError
      \<and> user_hit_ratio example_model example_dataset 5 0 =
          Inr (real (length (filter (\<lambda>i. i \<in> {0, 2})
                 (top_k_list (predict_user example_model 0) 5))) / real 5)
      \<and> user_ndcg example_model example_dataset 5 0 =
          Inr (sum_list (map (\<lambda>(n, item). if item \<in> {0, 2} then 1 / log 2 (real (n + 2)) else 0)
                          (zip [0..<length (predict_user example_model 0)]
                               (top_k_list (predict_user example_model 0) 5)))
               / sum_list (map (\<lambda>n. 1 / log 2 (real (n + 2))) [0..<5]))"
    using AP_index_bounds [OF rel_user0, of 5 example_model] short by blast
  moreover have "HitRatio_at_k example_model example_dataset 5 =
              Inr (np_mean (map (\<lambda>v. Finite
                     (real (length (filter (\<lambda>i. i \<in> the (map_of (train_user example_dataset) v))
                                      (top_k_list (predict_user example_model v) 5))) / real 5))
                   (map fst (train_user example_dataset))))
            \<and> NDCG_at_k example_model example_dataset 5 =
              Inr (np_div_int
                     (Finite (sum_list (map (\<lambda>v.
                        sum_list (map (\<lambda>(n, item). if item \<in> the (map_of (train_user example_dataset) v)
                                                  then 1 / log 2 (real (n + 2)) else 0)
                                   (zip [0..<length (top_k_list (predict_user example_model v) 5)]
                                        (top_k_list (predict_user example_model v) 5)))
                        / sum_list (map (\<lambda>n. 1 / log 2 (real (n + 2))) [0..<5]))
                      (map fst (train_user example_dataset)))))
                     (n_users example_dataset))"
    using AP_index_bounds [OF rel_user0, of 5 example_model] five by blast
  ultimately show ?thesis
    using short long
    by (simp add: rel_user0 rel_user1 AP_user0 top_k_user0 top_k_user1 len_user0 upt_0_3
        keys_example n np_mean_def add_divide_distrib [symmetric] mean_of_two_equal
        del: One_nat_def)
qed

subsection \<open>Mean average precision and the per-user values\<close>

text \<open>
  C2 states that \<open>MAP_at_k\<close> is the arithmetic mean of \<open>AP_at_k\<close> over the users of
  \<open>train_user\<close>, for every dataset. In the sparse dataset user 1 occurs in the test split
  only: \<open>train_user\<close> has the single user 0, whose average precision at 2 is 1.0, and
  \<open>n_users\<close> is 2. The mean over the users of \<open>train_user\<close> is 1.0; \<open>MAP_at_k\<close> returns
  0.5.
\<close>

theorem MAP_user_count_counterexample:
  "map fst (train_user sparse_dataset) = [0]
   \<and> n_users sparse_dataset = 2
   \<and> AP_at_k example_model sparse_dataset 0 2 = Inr 1
   \<and> MAP_at_k example_model sparse_dataset 2 = Inr (1 / 2)"
  unfolding MAP_at_k_def keys_sparse n_users_sparse
  by (simp add: AP_sparse py_div_def)

text \<open>
  C2, amended. For every dataset whose \<open>n_users\<close> is the number of users in \<open>train_user\<close>,
  with at least one user, and every cutoff k: when \<open>AP_at_k\<close> returns a value for each
  user of \<open>train_user\<close>, \<open>MAP_at_k\<close> returns the arithmetic mean of these values.
\<close>

theorem MAP_is_mean_of_AP:
  assumes "n_users d = int (length (train_user d))"
    and "train_user d \<noteq> []"
    and "\<forall>u \<in> set (map fst (train_user d)). AP_at_k m d u k = Inr (ap u)"
  shows "MAP_at_k m d k =
           Inr (sum_list (map ap (map fst (train_user d))) / real (length (map fst (train_user d))))"
proof -
  have "MAP_loop m d k (map fst (train_user d)) 0 = Inr (0 + sum_list (map ap (map fst (train_user d))))"
    using assms(3) by (rule MAP_loop_eq)
  moreover have "real_of_int (n_users d) \<noteq> 0"
    using assms(1,2) by simp
  moreover have "real_of_int (n_users d) = real (length (map fst (train_user d)))"
    using assms(1) by simp
  ultimately show ?thesis
    by (simp add: MAP_at_k_def py_div_def)
qed

theorem MAP_is_mean_of_AP_witness:
  "n_users partial_dataset = int (length (train_user partial_dataset))
   \<and> train_user partial_dataset \<noteq> []
   \<and> map fst (train_user partial_dataset) = [0, 1]
   \<and> AP_at_k example_model partial_dataset 0 2 = Inr 1
   \<and> AP_at_k example_model partial_dataset 1 2 = Inr (1 / 2)
   \<and> MAP_at_k example_model partial_dataset 2 = Inr (3 / 4)"
proof -
  have size: "n_users partial_dataset = int (length (train_user partial_dataset))"
    and ne: "train_user partial_dataset \<noteq> []"
    by (simp_all add: partial_dataset_def)
  have "\<forall>u \<in> set (map fst (train_user partial_dataset)).
          AP_at_k example_model partial_dataset u 2 = Inr ((\<lambda>u. if u = 0 then 1 else 1 / 2) u)"
    unfolding keys_partial by (simp add: AP_partial0 AP_partial1 del: One_nat_def)
  then have "MAP_at_k example_model partial_dataset 2 =
               Inr (sum_list (map (\<lambda>u. if u = 0 then 1 else 1 / 2) (map fst (train_user partial_dataset)))
                    / real (length (map fst (train_user partial_dataset))))"
    by (rule MAP_is_mean_of_AP [OF size ne])
  then have "MAP_at_k example_model partial_dataset 2 = Inr (3 / 4)"
    unfolding keys_partial by simp
  then show ?thesis
    using size ne keys_partial AP_partial0 AP_partial1 by blast
qed

subsection \<open>The best case of NDCG\<close>

text \<open>
  C3 states that \<open>NDCG_at_k\<close> returns 1.0 whenever every position of every user's Top-k
  list is relevant, for every dataset. In the sparse dataset the only user of
  \<open>train_user\<close> has both positions of the Top-2 list in the relevant set, and \<open>n_users\<close>
  is 2: \<open>NDCG_at_k\<close> returns 0.5.
\<close>

theorem NDCG_user_count_counterexample:
  "map fst (train_user sparse_dataset) = [0]
   \<and> n_users sparse_dataset = 2
   \<and> top_k_list (predict_user example_model 0) 2 = [0, 2]
   \<and> map_of (train_user sparse_dataset) 0 = Some {0, 2}
   \<and> NDCG_at_k example_model sparse_dataset 2 = Inr (Finite (1 / 2))"
proof -
  have "\<forall>n < 2. n < length (top_k_list (predict_user example_model 0) 2)
                  \<and> top_k_list (predict_user example_model 0) 2 ! n \<in> {0, 2}"
    unfolding top2_user0 by (auto simp: less_2_cases_iff)
  then have "user_ndcg example_model sparse_dataset 2 0 = Inr 1"
    by (intro user_ndcg_all_relevant [OF _ rel_sparse]) simp_all
  moreover have "train_user sparse_dataset \<noteq> []"
    by (simp add: sparse_dataset_def)
  ultimately have "NDCG_at_k example_model sparse_dataset 2 = Inr (Finite (1 / 2))"
    unfolding NDCG_at_k_def keys_sparse n_users_sparse by simp
  then show ?thesis
    by (simp add: keys_sparse n_users_sparse top2_user0 rel_sparse)
qed

text \<open>
  C3, amended. For every k >= 1 and every dataset whose \<open>n_users\<close> is the number of users
  in \<open>train_user\<close>, with at least one user: if for every user each of the positions
  0..k-1 of the Top-k list exists and holds a relevant item, then \<open>NDCG_at_k\<close> returns
  exactly 1.0 (each per-user DCG equals the IDCG).
\<close>

theorem NDCG_best_case:
  assumes "1 \<le> k"
    and "n_users d = int (length (train_user d))"
    and "train_user d \<noteq> []"
    and "\<forall>u \<in> set (map fst (train_user d)). \<exists>rel.
           map_of (train_user d) u = Some rel
           \<and> (\<forall>n < k. n < length (top_k_list (predict_user m u) k)
                        \<and> top_k_list (predict_user m u) k ! n \<in> rel)"
  shows "NDCG_at_k m d k = Inr (Finite 1)"
proof -
  have "\<forall>u \<in> set (map fst (train_user d)). user_ndcg m d k u = Inr ((\<lambda>u. 1) u)"
    using assms(1,4) user_ndcg_all_relevant by blast
  then have "NDCG_loop m d k (map fst (train_user d)) 0
               = Inr (0 + sum_list (map (\<lambda>u. 1) (map fst (train_user d))))"
    by (rule NDCG_loop_eq)
  also have "sum_list (map (\<lambda>u. 1 :: real) (map fst (train_user d))) = real (length (train_user d))"
    using sum_list_ones [of "map fst (train_user d)"] by (simp only: length_map)
  finally have loop: "NDCG_loop m d k (map fst (train_user d)) 0 = Inr (real (length (train_user d)))"
    by simp
  have "length (train_user d) \<noteq> 0"
    using assms(3) by simp
  then show ?thesis
    by (simp add: NDCG_at_k_def loop assms(2,3))
qed

theorem NDCG_best_case_witness:
  "(1 :: nat) \<le> 2
   \<and> n_users example_dataset = int (length (train_user example_dataset))
   \<and> train_user example_dataset \<noteq> []
   \<and> map fst (train_user example_dataset) = [0, 1]
   \<and> top_k_list (predict_user example_model 0) 2 = [0, 2]
   \<and> map_of (train_user example_dataset) 0 = Some {0, 2}
   \<and> top_k_list (predict_user example_model 1) 2 = [1, 2]
   \<and> map_of (train_user example_dataset) 1 = Some {1, 2}
   \<and> NDCG_at_k example_model example_dataset 2 = Inr (Finite 1)"
proof -
  have size: "n_users example_dataset = int (length (train_user example_dataset))"
    and ne: "train_user example_dataset \<noteq> []"
    by (simp_all add: example_dataset_def)
  have "\<forall>u \<in> set (map fst (train_user example_dataset)). \<exists>rel.
           map_of (train_user example_dataset) u = Some rel
           \<and> (\<forall>n < 2. n < length (top_k_list (predict_user example_model u) 2)
                        \<and> top_k_list (predict_user example_model u) 2 ! n \<in> rel)"
    unfolding keys_example
    by (auto simp: rel_user0 rel_user1 top2_user0 top2_user1 less_2_cases_iff simp del: One_nat_def)
  then have "NDCG_at_k example_model example_dataset 2 = Inr (Finite 1)"
    by (intro NDCG_best_case [OF _ size ne]) simp_all
  moreover have "(1 :: nat) \<le> 2"
    by simp
  ultimately show ?thesis
    using size ne keys_example rel_user0 rel_user1 top2_user0 top2_user1 by blast
qed

subsection \<open>Metrics over no sample and no user\<close>

text \<open>
  C6 states that every aggregate metric over zero samples or zero users fails with an
  error instead of returning NaN. The test split of the example dataset is empty, and
  \<open>rmse_knn\<close> on it returns NaN without raising and without calling the model.
\<close>

theorem rmse_empty_split_counterexample:
  "rmse_knn example_model example_dataset ''test'' = (Inr NaN, [])"
  by (simp add: rmse_knn_def knn_split_def example_dataset_def rmse_body_Nil)

text \<open>
  C6, as the code has it. Over zero samples \<open>rmse_knn\<close>, \<open>rmse_svd\<close> and
  \<open>binary_cross_entropy\<close> return NaN and raise nothing; over zero users
  \<open>HitRatio_at_k\<close> returns NaN, and \<open>MAP_at_k\<close> and \<open>NDCG_at_k\<close> raise
  \<open>ZeroDivisionError\<close> when \<open>n_users\<close> is 0 and return 0.0 otherwise.
\<close>

theorem empty_input_results:
  "(knn_split d mode = Some ([], [], []) \<longrightarrow> rmse_knn m d mode = (Inr NaN, []))
   \<and> (svd_split d mode = Some ([], [], []) \<longrightarrow> rmse_svd m d baseline mode = (Inr NaN, []))
   \<and> binary_cross_entropy m [] item label method = (NaN, [])
   \<and> (train_user d = [] \<longrightarrow>
        HitRatio_at_k m d k = Inr NaN
        \<and> MAP_at_k m d k = (if n_users d = 0 then Inl ZeroDivisionError else Inr 0)
        \<and> NDCG_at_k m d k = (if n_users d = 0 then Inl ZeroDivisionError else Inr (Finite 0)))"
  by (simp add: rmse_knn_def rmse_svd_def rmse_body_Nil binary_cross_entropy_def np_mean_Nil
      HitRatio_at_k_def MAP_at_k_def NDCG_at_k_def py_div_def)

theorem empty_input_results_witness:
  "knn_split empty_dataset ''train'' = Some ([], [], [])
   \<and> svd_split empty_dataset ''test'' = Some ([], [], [])
   \<and> train_user empty_dataset = []
   \<and> rmse_knn example_model empty_dataset ''train'' = (Inr NaN, [])
   \<and> rmse_svd example_model empty_dataset False ''test'' = (Inr NaN, [])
   \<and> HitRatio_at_k example_model empty_dataset 2 = Inr NaN
   \<and> MAP_at_k example_model empty_dataset 2 = Inl ZeroDivisionError
   \<and> NDCG_at_k example_model empty_dataset 2 = Inl ZeroDivisionError"
  using empty_input_results [of empty_dataset "''train''" example_model False "[]" "[]" "''mf''" 2]
    empty_input_results [of empty_dataset "''test''" example_model False "[]" "[]" "''mf''" 2]
  by (simp add: knn_split_def svd_split_def empty_dataset_def)

subsection \<open>The ranking metrics under a shift of the scores\<close>










































end
